theory Spec2Isabelle
  imports Complex_Main "HOL-Library.Sublist" "HOL-Library.Word"
begin

section \<open>Data model of \<^verbatim>\<open>app8.py\<close>\<close>

text \<open>
  The script keeps the tree table in a pandas \<^verbatim>\<open>DataFrame\<close>. A numeric cell of the frame is a
  float, or \<^verbatim>\<open>NaN\<close> where the feed had no value; every comparison with \<^verbatim>\<open>NaN\<close> is false and the
  reductions \<^verbatim>\<open>min\<close>, \<^verbatim>\<open>max\<close>, \<^verbatim>\<open>mean\<close> skip it. Finite floats are taken as the real numbers they
  denote (rounding is not modelled).
\<close>

datatype number = Fin real | NaN

text \<open>
  The property bag of one GeoJSON feature: the three columns the script reads by name
  (\<^verbatim>\<open>COMMON\<close>, \<^verbatim>\<open>HEIGHT\<close>, \<^verbatim>\<open>DIAMETER\<close>) and the remaining attributes of the feed, passed through
  as (name, text) pairs. A JSON \<^verbatim>\<open>null\<close> species is \<open>None\<close>. A row of the frame is the property bag
  after \<^verbatim>\<open>props['lat'] = ...\<close> and \<^verbatim>\<open>props['lon'] = ...\<close>.
\<close>

record props =
  COMMON :: "string option"
  HEIGHT :: number
  DIAMETER :: number
  other :: "(string \<times> string) list"

record row = props +
  lat :: number
  lon :: number

record dataframe =
  columns :: "string list"
  rows :: "row list"

text \<open>\<^verbatim>\<open>len(df)\<close> and \<^verbatim>\<open>df.empty\<close> (a frame is empty when one of its axes has length 0).\<close>

definition len :: "dataframe \<Rightarrow> nat" where
  "len d = length (rows d)"

definition df_empty :: "dataframe \<Rightarrow> bool" where
  "df_empty d = (rows d = [] \<or> columns d = [])"

text \<open>
  Boolean indexing \<^verbatim>\<open>d[m]\<close>, the boolean series \<open>m\<close> computed row by row (\<open>keep\<close>): a new frame
  with the same columns and the rows where it is true, in the frame's order.
\<close>

definition select :: "(row \<Rightarrow> bool) \<Rightarrow> dataframe \<Rightarrow> dataframe" where
  "select keep d = d\<lparr>rows := filter keep (rows d)\<rparr>"

text \<open>
  \<^verbatim>\<open>series >= k\<close> and \<^verbatim>\<open>series <= k\<close> on one cell, \<open>k\<close> an integer of a slider: false on \<^verbatim>\<open>NaN\<close>.
\<close>

fun num_ge :: "number \<Rightarrow> int \<Rightarrow> bool" where
  "num_ge (Fin x) k = (of_int k \<le> x)"
| "num_ge NaN k = False"

fun num_le :: "number \<Rightarrow> int \<Rightarrow> bool" where
  "num_le (Fin x) k = (x \<le> of_int k)"
| "num_le NaN k = False"

section \<open>Filter Engine (lines 78 to 95)\<close>

text \<open>
  \<^verbatim>\<open>if choice != "All": df_filtered = df_filtered[df_filtered['COMMON'] == choice]\<close>
\<close>

definition species_filter :: "string \<Rightarrow> dataframe \<Rightarrow> dataframe" where
  "species_filter choice d =
     (if choice \<noteq> ''All'' then select (\<lambda>r. COMMON r = Some choice) d else d)"

text \<open>
  \<^verbatim>\<open>df_filtered[(df_filtered['HEIGHT'] >= height_range[0]) & (df_filtered['HEIGHT'] <= height_range[1])]\<close>
\<close>

definition height_filter :: "int \<times> int \<Rightarrow> dataframe \<Rightarrow> dataframe" where
  "height_filter height_range d =
     select (\<lambda>r. num_ge (HEIGHT r) (fst height_range) \<and> num_le (HEIGHT r) (snd height_range)) d"

definition diameter_filter :: "int \<times> int \<Rightarrow> dataframe \<Rightarrow> dataframe" where
  "diameter_filter diameter_range d =
     select (\<lambda>r. num_ge (DIAMETER r) (fst diameter_range) \<and> num_le (DIAMETER r) (snd diameter_range)) d"

text \<open>The value of \<^verbatim>\<open>df_filtered\<close> after line 95, from \<^verbatim>\<open>df\<close> and the three sidebar selections.\<close>

definition df_filtered :: "string \<Rightarrow> int \<times> int \<Rightarrow> int \<times> int \<Rightarrow> dataframe \<Rightarrow> dataframe" where
  "df_filtered choice height_range diameter_range d =
     diameter_filter diameter_range (height_filter height_range (species_filter choice d))"

text \<open>
  The same four statements on the script's store. Objects live in \<open>heap\<close>, addressed by position;
  a variable holds an address. \<^verbatim>\<open>df.copy()\<close> and \<^verbatim>\<open>d[m]\<close> each allocate a new frame, and an
  assignment rebinds the variable.
\<close>

record store =
  heap :: "dataframe list"
  var_df :: nat
  var_df_filtered :: nat

definition alloc :: "dataframe \<Rightarrow> store \<Rightarrow> store \<times> nat" where
  "alloc d s = (s\<lparr>heap := heap s @ [d]\<rparr>, length (heap s))"

definition deref :: "store \<Rightarrow> nat \<Rightarrow> dataframe" where
  "deref s a = heap s ! a"

definition stmt_copy :: "store \<Rightarrow> store" where
  "stmt_copy s = (let (s', a) = alloc (deref s (var_df s)) s in s'\<lparr>var_df_filtered := a\<rparr>)"

definition stmt_species :: "string \<Rightarrow> store \<Rightarrow> store" where
  "stmt_species choice s =
     (if choice \<noteq> ''All''
      then (let (s', a) = alloc (select (\<lambda>r. COMMON r = Some choice) (deref s (var_df_filtered s))) s
            in s'\<lparr>var_df_filtered := a\<rparr>)
      else s)"

definition stmt_height :: "int \<times> int \<Rightarrow> store \<Rightarrow> store" where
  "stmt_height height_range s =
     (let (s', a) = alloc (height_filter height_range (deref s (var_df_filtered s))) s
      in s'\<lparr>var_df_filtered := a\<rparr>)"

definition stmt_diameter :: "int \<times> int \<Rightarrow> store \<Rightarrow> store" where
  "stmt_diameter diameter_range s =
     (let (s', a) = alloc (diameter_filter diameter_range (deref s (var_df_filtered s))) s
      in s'\<lparr>var_df_filtered := a\<rparr>)"

definition apply_filters :: "string \<Rightarrow> int \<times> int \<Rightarrow> int \<times> int \<Rightarrow> store \<Rightarrow> store" where
  "apply_filters choice height_range diameter_range s =
     stmt_diameter diameter_range (stmt_height height_range (stmt_species choice (stmt_copy s)))"

section \<open>Dataset Fetcher (lines 22 to 37)\<close>

text \<open>
  The exceptions the body of \<^verbatim>\<open>get_clean_data\<close> can raise; \<^verbatim>\<open>except Exception\<close> catches them all.
  \<open>RequestError\<close> stands for whatever \<^verbatim>\<open>requests.get(...).json()\<close> raises.
\<close>

datatype exn = RequestError | KeyError | TypeError | IndexError | ValueError

text \<open>
  One feature of the GeoJSON response. \<open>properties\<close> and \<open>geometry\<close> are \<open>None\<close> for a JSON
  \<^verbatim>\<open>null\<close>; \<open>geometry\<close> holds the \<^verbatim>\<open>coordinates\<close> array of the geometry object, \<^verbatim>\<open>[lon, lat, ...]\<close>.
\<close>

record feature =
  properties :: "props option"
  geometry :: "number list option"

text \<open>
  The loop body, lines 30 to 33. The right-hand side \<^verbatim>\<open>f['geometry']['coordinates'][1]\<close> is
  evaluated first: subscripting \<^verbatim>\<open>None\<close> raises \<^verbatim>\<open>TypeError\<close>, a short array raises \<^verbatim>\<open>IndexError\<close>;
  then the item assignment on \<^verbatim>\<open>props\<close> raises \<^verbatim>\<open>TypeError\<close> when \<^verbatim>\<open>props\<close> is \<^verbatim>\<open>None\<close>.
\<close>

definition row_of :: "feature \<Rightarrow> exn + row" where
  "row_of f =
     (case geometry f of
        None \<Rightarrow> Inl TypeError
      | Some cs \<Rightarrow>
          if length cs < 2 then Inl IndexError
          else (case properties f of
                  None \<Rightarrow> Inl TypeError
                | Some p \<Rightarrow> Inr (props.extend p \<lparr>lat = cs ! 1, lon = cs ! 0\<rparr>)))"

text \<open>The \<^verbatim>\<open>for\<close> loop over the features, \<open>acc\<close> the list \<^verbatim>\<open>rows\<close> built so far.\<close>

fun collect_rows :: "feature list \<Rightarrow> row list \<Rightarrow> exn + row list" where
  "collect_rows [] acc = Inr acc"
| "collect_rows (f # fs) acc =
     (case row_of f of
        Inl e \<Rightarrow> Inl e
      | Inr r \<Rightarrow> collect_rows fs (acc @ [r]))"

text \<open>
  \<^verbatim>\<open>pd.DataFrame(rows)\<close>: the columns are the keys of the row dictionaries in the order they are
  first seen. The keys of a row are the feed's attributes followed by \<^verbatim>\<open>lat\<close> and \<^verbatim>\<open>lon\<close>, which the
  loop adds last.
\<close>

definition row_keys :: "row \<Rightarrow> string list" where
  "row_keys r = [''COMMON'', ''HEIGHT'', ''DIAMETER''] @ map fst (other r) @ [''lat'', ''lon'']"

fun union_keys :: "string list \<Rightarrow> string list \<Rightarrow> string list" where
  "union_keys seen [] = seen"
| "union_keys seen (k # ks) = union_keys (if k \<in> set seen then seen else seen @ [k]) ks"

definition DataFrame :: "row list \<Rightarrow> dataframe" where
  "DataFrame rs = \<lparr>columns = fold (\<lambda>r seen. union_keys seen (row_keys r)) rs [], rows = rs\<rparr>"

text \<open>
  \<^verbatim>\<open>get_clean_data\<close>, from the outcome of \<^verbatim>\<open>requests.get(url, params=params).json()['features']\<close>
  (\<open>Inl\<close>: the request, the JSON parse or the key lookup raised). The result is the frame and the
  exception shown by \<^verbatim>\<open>st.error\<close>, if any. The one-hour cache of the decorator is not modelled.
\<close>

definition get_clean_data :: "exn + feature list \<Rightarrow> dataframe \<times> exn option" where
  "get_clean_data response =
     (case response of
        Inl e \<Rightarrow> (DataFrame [], Some e)
      | Inr features \<Rightarrow>
          (case collect_rows features [] of
             Inl e \<Rightarrow> (DataFrame [], Some e)
           | Inr rs \<Rightarrow> (DataFrame rs, None)))"

section \<open>Sidebar sliders (lines 52 to 67)\<close>

text \<open>
  \<^verbatim>\<open>Series.min()\<close> and \<^verbatim>\<open>Series.max()\<close> skip \<^verbatim>\<open>NaN\<close>; on a series with no value they are \<^verbatim>\<open>NaN\<close>.
\<close>

fun series_min :: "number list \<Rightarrow> number" where
  "series_min [] = NaN"
| "series_min (NaN # vs) = series_min vs"
| "series_min (Fin x # vs) = (case series_min vs of NaN \<Rightarrow> Fin x | Fin m \<Rightarrow> Fin (min x m))"

fun series_max :: "number list \<Rightarrow> number" where
  "series_max [] = NaN"
| "series_max (NaN # vs) = series_max vs"
| "series_max (Fin x # vs) = (case series_max vs of NaN \<Rightarrow> Fin x | Fin m \<Rightarrow> Fin (max x m))"

text \<open>Python's \<^verbatim>\<open>int(x)\<close> on a float: truncation toward zero, \<^verbatim>\<open>ValueError\<close> on \<^verbatim>\<open>NaN\<close>.\<close>

fun py_int :: "number \<Rightarrow> exn + int" where
  "py_int NaN = Inl ValueError"
| "py_int (Fin x) = Inr (if 0 \<le> x then \<lfloor>x\<rfloor> else \<lceil>x\<rceil>)"

text \<open>
  The bounds of one slider and its returned value before the user moves it, which is the default
  \<^verbatim>\<open>(min, max)\<close> passed as \<^verbatim>\<open>value\<close>.
\<close>

definition slider_default :: "number list \<Rightarrow> exn + int \<times> int" where
  "slider_default series =
     (case py_int (series_min series) of
        Inl e \<Rightarrow> Inl e
      | Inr lo \<Rightarrow>
          (case py_int (series_max series) of
             Inl e \<Rightarrow> Inl e
           | Inr hi \<Rightarrow> Inr (lo, hi)))"

definition min_max_height :: "dataframe \<Rightarrow> exn + int \<times> int" where
  "min_max_height d = slider_default (map HEIGHT (rows d))"

definition min_max_diameter :: "dataframe \<Rightarrow> exn + int \<times> int" where
  "min_max_diameter d = slider_default (map DIAMETER (rows d))"

text \<open>
  The filtered frame of the first run of the script: species \<^verbatim>\<open>"All"\<close> (the first option of the
  select box) and both sliders at their defaults.
\<close>

definition default_view :: "dataframe \<Rightarrow> exn + dataframe" where
  "default_view d =
     (case min_max_height d of
        Inl e \<Rightarrow> Inl e
      | Inr height_range \<Rightarrow>
          (case min_max_diameter d of
             Inl e \<Rightarrow> Inl e
           | Inr diameter_range \<Rightarrow> Inr (df_filtered ''All'' height_range diameter_range d)))"

section \<open>Aggregator (lines 147 to 153)\<close>

text \<open>\<^verbatim>\<open>Series.nunique()\<close>: the number of distinct values, missing ones not counted.\<close>

fun dropna :: "'a option list \<Rightarrow> 'a list" where
  "dropna [] = []"
| "dropna (None # vs) = dropna vs"
| "dropna (Some v # vs) = v # dropna vs"

definition nunique :: "'a option list \<Rightarrow> nat" where
  "nunique vs = length (remdups (dropna vs))"

text \<open>
  \<^verbatim>\<open>Series.mean()\<close> as pandas computes it: the sum of the values with \<^verbatim>\<open>NaN\<close> counted as 0, the
  number of values that are not \<^verbatim>\<open>NaN\<close>, and their quotient, which is \<^verbatim>\<open>NaN\<close> when that number is 0.
\<close>

fun nansum :: "number list \<Rightarrow> real" where
  "nansum [] = 0"
| "nansum (NaN # vs) = 0 + nansum vs"
| "nansum (Fin x # vs) = x + nansum vs"

fun notna_count :: "number list \<Rightarrow> nat" where
  "notna_count [] = 0"
| "notna_count (NaN # vs) = notna_count vs"
| "notna_count (Fin x # vs) = Suc (notna_count vs)"

definition series_mean :: "number list \<Rightarrow> number" where
  "series_mean vs =
     (if notna_count vs = 0 then NaN else Fin (nansum vs / real (notna_count vs)))"

text \<open>
  The four metrics of the statistics column. The script shows the means through \<^verbatim>\<open>:.1f\<close>; the
  values before formatting are kept here.
\<close>

record stats =
  total_trees :: nat
  species_count :: nat
  avg_height :: number
  avg_diameter :: number

definition col_stats :: "dataframe \<Rightarrow> stats" where
  "col_stats d =
     \<lparr>total_trees = len d,
      species_count = nunique (map COMMON (rows d)),
      avg_height = series_mean (map HEIGHT (rows d)),
      avg_diameter = series_mean (map DIAMETER (rows d))\<rparr>"

section \<open>Visualization Selector (lines 111 to 138)\<close>

text \<open>
  Python's \<^verbatim>\<open>str\<close> of a cell inside an f-string. The species is a string, or \<^verbatim>\<open>None\<close>; a number
  prints as \<^verbatim>\<open>nan\<close> or through \<open>repr\<close>, the decimal form Python gives a float, which is a
  parameter of the model.
\<close>

definition str_text :: "string option \<Rightarrow> string" where
  "str_text c = (case c of None \<Rightarrow> ''None'' | Some s \<Rightarrow> s)"

definition str_number :: "(real \<Rightarrow> string) \<Rightarrow> number \<Rightarrow> string" where
  "str_number repr v = (case v of NaN \<Rightarrow> ''nan'' | Fin x \<Rightarrow> repr x)"

text \<open>What the script hands to folium: a \<^verbatim>\<open>CircleMarker\<close> with its tooltip, and the layers of the map.\<close>

record circle_marker =
  location :: "number list"
  radius :: nat
  color :: string
  fill :: bool
  fillOpacity :: real
  tooltip :: string
  sticky :: bool

datatype layer =
  HeatMap "number list list" nat nat
| MarkerCluster "circle_marker list"
| CircleMarker circle_marker

definition MAIN_COLOR :: string where
  "MAIN_COLOR = ''#023F02''"

text \<open>Line 112: \<^verbatim>\<open>df_filtered[['lat', 'lon']].values.tolist()\<close>.\<close>

definition locations :: "dataframe \<Rightarrow> number list list" where
  "locations d = map (\<lambda>r. [lat r, lon r]) (rows d)"

text \<open>Line 118, the f-string of the \<^verbatim>\<open>Marker Cluster\<close> branch.\<close>

definition tooltip_html_cluster :: "(real \<Rightarrow> string) \<Rightarrow> row \<Rightarrow> string" where
  "tooltip_html_cluster repr r =
     ''<b>'' @ str_text (COMMON r) @ ''</b><br>Height: '' @ str_number repr (HEIGHT r)
       @ '' ft<br>Diameter: '' @ str_number repr (DIAMETER r) @ '' in''"

text \<open>Line 130, the f-string of the \<^verbatim>\<open>Markers\<close> branch.\<close>

definition tooltip_html_markers :: "(real \<Rightarrow> string) \<Rightarrow> row \<Rightarrow> string" where
  "tooltip_html_markers repr r =
     ''<b>'' @ str_text (COMMON r) @ ''</b><br>Height: '' @ str_number repr (HEIGHT r)
       @ '' ft<br>Diameter: '' @ str_number repr (DIAMETER r) @ '' in''"

text \<open>Lines 117 to 126: the markers added to the cluster, one per row of \<^verbatim>\<open>iterrows()\<close>.\<close>

definition cluster_markers :: "(real \<Rightarrow> string) \<Rightarrow> dataframe \<Rightarrow> circle_marker list" where
  "cluster_markers repr d =
     map (\<lambda>r. \<lparr>location = [lat r, lon r], radius = 8, color = MAIN_COLOR, fill = True,
               fillOpacity = 0.8, tooltip = tooltip_html_cluster repr r, sticky = True\<rparr>) (rows d)"

text \<open>Lines 129 to 138: the markers added to the map itself.\<close>

definition plain_markers :: "(real \<Rightarrow> string) \<Rightarrow> dataframe \<Rightarrow> circle_marker list" where
  "plain_markers repr d =
     map (\<lambda>r. \<lparr>location = [lat r, lon r], radius = 8, color = MAIN_COLOR, fill = True,
               fillOpacity = 0.8, tooltip = tooltip_html_markers repr r, sticky = True\<rparr>) (rows d)"

text \<open>The dispatch on \<^verbatim>\<open>map_type\<close>: the layers added to the map \<^verbatim>\<open>m\<close>.\<close>

definition map_layers :: "(real \<Rightarrow> string) \<Rightarrow> string \<Rightarrow> dataframe \<Rightarrow> layer list" where
  "map_layers repr map_type d =
     (if map_type = ''HeatMap'' then [HeatMap (locations d) 15 10]
      else if map_type = ''Marker Cluster'' then [MarkerCluster (cluster_markers repr d)]
      else map CircleMarker (plain_markers repr d))"

section \<open>Exporter (line 160)\<close>

text \<open>
  \<^verbatim>\<open>to_csv(index=False)\<close> writes through Python's \<^verbatim>\<open>csv\<close> writer with minimal quoting: a field with
  a comma, a double quote or a line break is put in double quotes, its double quotes doubled; a
  record that is one empty field is written as two double quotes. Each record ends in a line feed.
\<close>

definition needs_quote :: "string \<Rightarrow> bool" where
  "needs_quote s = list_ex (\<lambda>c. c = CHR '','' \<or> c = CHR 0x22 \<or> c = CHR 0x0A \<or> c = CHR 0x0D) s"

definition quote_field :: "string \<Rightarrow> string" where
  "quote_field s =
     (if needs_quote s
      then [CHR 0x22] @ concat (map (\<lambda>c. if c = CHR 0x22 then [CHR 0x22, CHR 0x22] else [c]) s)
             @ [CHR 0x22]
      else s)"

fun join :: "string \<Rightarrow> string list \<Rightarrow> string" where
  "join sep [] = []"
| "join sep [x] = x"
| "join sep (x # y # ys) = x @ sep @ join sep (y # ys)"

definition csv_line :: "string list \<Rightarrow> string" where
  "csv_line fs =
     (if fs = [[]] then [CHR 0x22, CHR 0x22] else join '','' (map quote_field fs))
       @ [CHR 0x0A]"

text \<open>
  The text of one cell: a missing value is the empty field, a number goes through \<open>repr\<close>, and a
  column the row has no attribute for is missing.
\<close>

definition csv_number :: "(real \<Rightarrow> string) \<Rightarrow> number \<Rightarrow> string" where
  "csv_number repr v = (case v of NaN \<Rightarrow> [] | Fin x \<Rightarrow> repr x)"

definition cell_text :: "(real \<Rightarrow> string) \<Rightarrow> row \<Rightarrow> string \<Rightarrow> string" where
  "cell_text repr r c =
     (if c = ''COMMON'' then (case COMMON r of None \<Rightarrow> [] | Some s \<Rightarrow> s)
      else if c = ''HEIGHT'' then csv_number repr (HEIGHT r)
      else if c = ''DIAMETER'' then csv_number repr (DIAMETER r)
      else if c = ''lat'' then csv_number repr (lat r)
      else if c = ''lon'' then csv_number repr (lon r)
      else (case map_of (other r) c of None \<Rightarrow> [] | Some t \<Rightarrow> t))"

definition to_csv :: "(real \<Rightarrow> string) \<Rightarrow> dataframe \<Rightarrow> string" where
  "to_csv repr d =
     csv_line (columns d)
       @ concat (map (\<lambda>r. csv_line (map (cell_text repr r) (columns d))) (rows d))"

text \<open>
  \<^verbatim>\<open>.encode('utf-8')\<close>. A character of a \<open>string\<close> stands for the code point of its number
  (U+0000 to U+00FF): one byte below U+0080, two bytes from there on.
\<close>

definition encode_char :: "char \<Rightarrow> 8 word list" where
  "encode_char c =
     (let n = (of_char c :: nat)
      in if n < 128 then [of_nat n] else [of_nat (192 + n div 64), of_nat (128 + n mod 64)])"

definition encode_utf8 :: "string \<Rightarrow> 8 word list" where
  "encode_utf8 s = concat (map encode_char s)"

definition csv :: "(real \<Rightarrow> string) \<Rightarrow> dataframe \<Rightarrow> 8 word list" where
  "csv repr d = encode_utf8 (to_csv repr d)"



section \<open>The specification's mean\<close>



section \<open>Example data\<close>

text \<open>
  Three trees, two of one species; a tree whose height the feed does not give; a tree with
  fractional measures; and features of a response.
\<close>

definition oak_50 :: row where
  "oak_50 = \<lparr>COMMON = Some ''Oak'', HEIGHT = Fin 50, DIAMETER = Fin 20, other = [],
             lat = Fin 45.5, lon = Fin (-122.6)\<rparr>"

definition pine_80 :: row where
  "pine_80 = \<lparr>COMMON = Some ''Pine'', HEIGHT = Fin 80, DIAMETER = Fin 30, other = [],
              lat = Fin 45.52, lon = Fin (-122.65)\<rparr>"

definition oak_60 :: row where
  "oak_60 = \<lparr>COMMON = Some ''Oak'', HEIGHT = Fin 60, DIAMETER = Fin 25, other = [],
             lat = Fin 45.51, lon = Fin (-122.64)\<rparr>"

definition elm_no_height :: row where
  "elm_no_height = \<lparr>COMMON = Some ''Elm'', HEIGHT = NaN, DIAMETER = Fin 12, other = [],
                    lat = Fin 45.53, lon = Fin (-122.66)\<rparr>"

definition fir_fraction :: row where
  "fir_fraction = \<lparr>COMMON = Some ''Fir'', HEIGHT = Fin 80.5, DIAMETER = Fin 30.25, other = [],
                   lat = Fin 45.54, lon = Fin (-122.67)\<rparr>"

definition three_trees :: dataframe where
  "three_trees = DataFrame [oak_50, pine_80, oak_60]"

definition trees_with_gap :: dataframe where
  "trees_with_gap = DataFrame [oak_50, elm_no_height, oak_60]"

definition two_trees :: dataframe where
  "two_trees = DataFrame [oak_50, fir_fraction]"

definition script_store :: store where
  "script_store = \<lparr>heap = [three_trees], var_df = 0, var_df_filtered = 0\<rparr>"

definition oak_props :: props where
  "oak_props = \<lparr>COMMON = Some ''Oak'', HEIGHT = Fin 50, DIAMETER = Fin 20, other = []\<rparr>"

definition good_feature :: feature where
  "good_feature = \<lparr>properties = Some oak_props, geometry = Some [Fin (-122.6), Fin 45.5]\<rparr>"

definition no_geometry_feature :: feature where
  "no_geometry_feature = \<lparr>properties = Some oak_props, geometry = None\<rparr>"

definition nan_feature :: feature where
  "nan_feature = \<lparr>properties = Some oak_props, geometry = Some [Fin (-122.6), NaN]\<rparr>"

text \<open>A stand-in for Python's float formatting where a concrete one is needed.\<close>

definition digits :: "real \<Rightarrow> string" where
  "digits x = (if x = 50 then ''50.0'' else if x = 20 then ''20.0'' else ''?'')"

section \<open>Properties of the Filter Engine\<close>

lemma rows_select: "rows (select keep d) = filter keep (rows d)"
  by (simp add: select_def)

lemma columns_select: "columns (select keep d) = columns d"
  by (simp add: select_def)

lemma rows_species_filter:
  "rows (species_filter choice d) = filter (\<lambda>r. choice = ''All'' \<or> COMMON r = Some choice) (rows d)"
  by (simp add: species_filter_def rows_select)

lemma columns_species_filter: "columns (species_filter choice d) = columns d"
  by (simp add: species_filter_def columns_select)

lemma rows_df_filtered:
  "rows (df_filtered choice hr dr d) =
     filter (\<lambda>r. (choice = ''All'' \<or> COMMON r = Some choice)
                \<and> (num_ge (HEIGHT r) (fst hr) \<and> num_le (HEIGHT r) (snd hr))
                \<and> (num_ge (DIAMETER r) (fst dr) \<and> num_le (DIAMETER r) (snd dr))) (rows d)"
  by (simp add: df_filtered_def diameter_filter_def height_filter_def rows_select
      rows_species_filter conj_commute conj_left_commute)


lemma num_range_iff:
  "num_ge v lo \<and> num_le v hi \<longleftrightarrow> (\<exists>x. v = Fin x \<and> of_int lo \<le> x \<and> x \<le> of_int hi)"
  by (cases v) auto

lemma rows_DataFrame: "rows (DataFrame rs) = rs"
  by (simp add: DataFrame_def)

text \<open>Each statement of the filter section allocates at most one frame and leaves \<^verbatim>\<open>df\<close> bound.\<close>

lemma stmt_heaps:
  "heap (stmt_copy s) = heap s @ [deref s (var_df s)]"
  "heap (stmt_species c s) =
     (if c \<noteq> ''All'' then heap s @ [species_filter c (deref s (var_df_filtered s))] else heap s)"
  "heap (stmt_height hr s) = heap s @ [height_filter hr (deref s (var_df_filtered s))]"
  "heap (stmt_diameter dr s) = heap s @ [diameter_filter dr (deref s (var_df_filtered s))]"
  by (simp_all add: stmt_copy_def stmt_species_def stmt_height_def stmt_diameter_def alloc_def
      species_filter_def)

lemma stmt_var_df:
  "var_df (stmt_copy s) = var_df s"
  "var_df (stmt_species c s) = var_df s"
  "var_df (stmt_height hr s) = var_df s"
  "var_df (stmt_diameter dr s) = var_df s"
  by (simp_all add: stmt_copy_def stmt_species_def stmt_height_def stmt_diameter_def alloc_def)

lemma stmt_results:
  "deref (stmt_copy s) (var_df_filtered (stmt_copy s)) = deref s (var_df s)"
  "deref (stmt_species c s) (var_df_filtered (stmt_species c s))
     = species_filter c (deref s (var_df_filtered s))"
  "deref (stmt_height hr s) (var_df_filtered (stmt_height hr s))
     = height_filter hr (deref s (var_df_filtered s))"
  "deref (stmt_diameter dr s) (var_df_filtered (stmt_diameter dr s))
     = diameter_filter dr (deref s (var_df_filtered s))"
  by (simp_all add: stmt_copy_def stmt_species_def stmt_height_def stmt_diameter_def alloc_def
      deref_def species_filter_def)

lemma apply_filters_result:
  "deref (apply_filters c hr dr s) (var_df_filtered (apply_filters c hr dr s))
     = df_filtered c hr dr (deref s (var_df s))"
  by (simp add: apply_filters_def df_filtered_def stmt_results)

lemma apply_filters_heap: "\<exists>ds. heap (apply_filters c hr dr s) = heap s @ ds"
  by (simp add: apply_filters_def stmt_heaps)

lemma apply_filters_var_df: "var_df (apply_filters c hr dr s) = var_df s"
  by (simp add: apply_filters_def stmt_var_df)

lemma deref_old: "heap s' = heap s @ ds \<Longrightarrow> a < length (heap s) \<Longrightarrow> deref s' a = deref s a"
  by (simp add: deref_def nth_append)

lemma three_trees_oak:
  "rows (df_filtered ''Oak'' (0, 100) (0, 100) three_trees) = [oak_50, oak_60]"
  by (simp add: rows_df_filtered three_trees_def rows_DataFrame oak_50_def pine_80_def oak_60_def)

text \<open>
  Claim C1. Whatever the species choice and the two ranges, the rows of \<^verbatim>\<open>df_filtered\<close> after the
  filter section are a subsequence of the rows of \<^verbatim>\<open>df\<close>, in the order of \<^verbatim>\<open>df\<close>; and running the
  section mutates nothing: \<^verbatim>\<open>df\<close> is bound to the same object, that object is the same frame, and
  every object that existed before is unchanged (the section only allocates).
\<close>

theorem filter_subsequence_no_mutation:
  assumes "var_df s < length (heap s)"
  shows "subseq (rows (deref (apply_filters choice hr dr s) (var_df_filtered (apply_filters choice hr dr s))))
           (rows (deref s (var_df s)))
       \<and> deref (apply_filters choice hr dr s) (var_df_filtered (apply_filters choice hr dr s))
           = df_filtered choice hr dr (deref s (var_df s))
       \<and> var_df (apply_filters choice hr dr s) = var_df s
       \<and> deref (apply_filters choice hr dr s) (var_df s) = deref s (var_df s)
       \<and> take (length (heap s)) (heap (apply_filters choice hr dr s)) = heap s"
proof -
  obtain ds where h: "heap (apply_filters choice hr dr s) = heap s @ ds"
    using apply_filters_heap by blast
  have "deref (apply_filters choice hr dr s) (var_df s) = deref s (var_df s)"
    using deref_old[OF h assms] .
  moreover have "take (length (heap s)) (heap (apply_filters choice hr dr s)) = heap s"
    by (simp add: h)
  moreover have "subseq (rows (df_filtered choice hr dr (deref s (var_df s)))) (rows (deref s (var_df s)))"
    by (simp add: rows_df_filtered)
  ultimately show ?thesis
    by (simp add: apply_filters_result apply_filters_var_df)
qed

theorem filter_subsequence_no_mutation_witness:
  "var_df script_store < length (heap script_store)
   \<and> rows (deref (apply_filters ''Oak'' (0, 100) (0, 100) script_store)
        (var_df_filtered (apply_filters ''Oak'' (0, 100) (0, 100) script_store))) = [oak_50, oak_60]
   \<and> subseq [oak_50, oak_60] [oak_50, pine_80, oak_60]
   \<and> deref (apply_filters ''Oak'' (0, 100) (0, 100) script_store) (var_df script_store) = three_trees"
proof -
  have w: "var_df script_store < length (heap script_store)"
    by (simp add: script_store_def)
  have d: "deref script_store (var_df script_store) = three_trees"
    by (simp add: script_store_def deref_def)
  have r: "rows three_trees = [oak_50, pine_80, oak_60]"
    by (simp add: three_trees_def rows_DataFrame)
  show ?thesis
    using filter_subsequence_no_mutation[OF w, of "''Oak''" "(0, 100)" "(0, 100)"] w
    by (simp add: d r three_trees_oak)
qed

text \<open>
  Claim C3. A row passes the species step exactly when the choice is the sentinel \<^verbatim>\<open>"All"\<close> or its
  \<^verbatim>\<open>COMMON\<close> value is the chosen string itself (equality of strings, so case matters; a row with
  no species never equals a choice). The step keeps the order and the columns.
\<close>

theorem species_predicate:
  "(r \<in> set (rows (species_filter choice d))
      \<longleftrightarrow> r \<in> set (rows d) \<and> (choice = ''All'' \<or> COMMON r = Some choice))
   \<and> rows (species_filter choice d)
       = filter (\<lambda>r. choice = ''All'' \<or> COMMON r = Some choice) (rows d)
   \<and> columns (species_filter choice d) = columns d"
  by (auto simp add: rows_species_filter columns_species_filter)

text \<open>
  Claim C4. A row is in the filtered frame exactly when it is a row of the dataset that passes
  the species predicate, whose height is a value between the two ends of the height range, ends
  included, and whose diameter is a value between the two ends of the diameter range, ends
  included. A row whose height or diameter is missing is not in the filtered frame.
\<close>

theorem filtered_subset_iff:
  "(r \<in> set (rows (df_filtered choice hr dr d))
      \<longleftrightarrow> r \<in> set (rows d)
          \<and> (choice = ''All'' \<or> COMMON r = Some choice)
          \<and> (\<exists>h. HEIGHT r = Fin h \<and> of_int (fst hr) \<le> h \<and> h \<le> of_int (snd hr))
          \<and> (\<exists>w. DIAMETER r = Fin w \<and> of_int (fst dr) \<le> w \<and> w \<le> of_int (snd dr)))
   \<and> (HEIGHT r = NaN \<or> DIAMETER r = NaN \<longrightarrow> r \<notin> set (rows (df_filtered choice hr dr d)))"
  by (auto simp add: rows_df_filtered num_range_iff)

theorem filtered_subset_iff_witness:
  "oak_50 \<in> set (rows (df_filtered ''Oak'' (0, 100) (0, 100) trees_with_gap))
   \<and> HEIGHT elm_no_height = NaN
   \<and> elm_no_height \<in> set (rows trees_with_gap)
   \<and> elm_no_height \<notin> set (rows (df_filtered ''All'' (0, 100) (0, 100) trees_with_gap))"
proof -
  have n: "HEIGHT elm_no_height = NaN"
    by (simp add: elm_no_height_def)
  have "oak_50 \<in> set (rows (df_filtered ''Oak'' (0, 100) (0, 100) trees_with_gap))"
    using filtered_subset_iff[of oak_50 "''Oak''" "(0, 100)" "(0, 100)" trees_with_gap]
    by (simp add: trees_with_gap_def rows_DataFrame oak_50_def)
  moreover have "elm_no_height \<notin> set (rows (df_filtered ''All'' (0, 100) (0, 100) trees_with_gap))"
    using filtered_subset_iff[of elm_no_height "''All''" "(0, 100)" "(0, 100)" trees_with_gap] n
    by blast
  ultimately show ?thesis
    using n by (simp add: trees_with_gap_def rows_DataFrame)
qed

lemma three_trees_out_of_range:
  "rows (df_filtered ''All'' (200, 300) (0, 100) three_trees) = []"
  by (simp add: rows_df_filtered three_trees_def rows_DataFrame oak_50_def pine_80_def oak_60_def)

lemma df_filtered_eq:
  "df_filtered choice hr dr d =
     d\<lparr>rows := filter (\<lambda>r. (choice = ''All'' \<or> COMMON r = Some choice)
                \<and> (num_ge (HEIGHT r) (fst hr) \<and> num_le (HEIGHT r) (snd hr))
                \<and> (num_ge (DIAMETER r) (fst dr) \<and> num_le (DIAMETER r) (snd dr))) (rows d)\<rparr>"
  by (simp add: df_filtered_def diameter_filter_def height_filter_def species_filter_def
      select_def conj_commute conj_left_commute)

lemma df_filtered_drop_missing:
  "df_filtered choice hr dr (select (\<lambda>r. HEIGHT r \<noteq> NaN \<and> DIAMETER r \<noteq> NaN) d)
     = df_filtered choice hr dr d"
proof -
  have nn: "num_ge v lo \<Longrightarrow> v \<noteq> NaN" for v lo
    by (cases v) auto
  have p: "(HEIGHT x \<noteq> NaN \<and> DIAMETER x \<noteq> NaN \<and> A \<and> num_ge (HEIGHT x) a \<and> B
              \<and> num_ge (DIAMETER x) b \<and> C)
           \<longleftrightarrow> (A \<and> num_ge (HEIGHT x) a \<and> B \<and> num_ge (DIAMETER x) b \<and> C)"
    for x :: row and A a B b C
    using nn by blast
  show ?thesis
    by (simp add: df_filtered_eq select_def p)
qed

section \<open>Properties of the Dataset Fetcher\<close>

lemma collect_rows_ok:
  "map row_of fs = map Inr rs \<Longrightarrow> collect_rows fs acc = Inr (acc @ rs)"
proof (induction fs arbitrary: acc rs)
  case Nil
  then show ?case by simp
next
  case (Cons f fs)
  then obtain r rs' where rs: "rs = r # rs'" "row_of f = Inr r" "map row_of fs = map Inr rs'"
    by (cases rs) auto
  with Cons.IH[of rs' "acc @ [r]"] show ?case by simp
qed

lemma collect_rows_error:
  "Inl e \<in> set (map row_of fs) \<Longrightarrow> \<exists>e'. collect_rows fs acc = Inl e'"
proof (induction fs arbitrary: acc)
  case Nil
  then show ?case by simp
next
  case (Cons f fs)
  show ?case
  proof (cases "row_of f")
    case (Inl a)
    then show ?thesis by simp
  next
    case (Inr r)
    with Cons.prems have "Inl e \<in> set (map row_of fs)" by auto
    from Cons.IH[OF this, of "acc @ [r]"] Inr show ?thesis by simp
  qed
qed

lemma row_of_Inr_iff:
  "row_of f = Inr r \<longleftrightarrow>
     (\<exists>p cs. properties f = Some p \<and> geometry f = Some cs \<and> 2 \<le> length cs
        \<and> r = props.extend p \<lparr>lat = cs ! 1, lon = cs ! 0\<rparr>)"
  by (auto simp add: row_of_def split: option.splits if_splits)

lemma row_of_examples:
  "row_of good_feature = Inr oak_50"
  "row_of no_geometry_feature = Inl TypeError"
  "row_of nan_feature = Inr (oak_50\<lparr>lat := NaN\<rparr>)"
  by (simp_all add: row_of_def good_feature_def no_geometry_feature_def nan_feature_def
      oak_props_def oak_50_def props.extend_def)

text \<open>
  Claim C2, as the code has it. The fetch drops no feature on its own: it is all or nothing.
  When the loop body succeeds on every feature of the response (\<open>rs\<close> the rows it yields, in
  order), the dataset is the frame of exactly these rows and no error is shown. When the loop body
  raises on some feature, the whole fetch is aborted: the dataset is the empty frame and an error is
  shown. The loop body succeeds exactly on a feature that has a property bag and a geometry with
  at least two coordinates, whatever the coordinates are: a latitude or longitude that is not
  finite is kept in the row.
\<close>

theorem fetch_all_or_nothing:
  "(map row_of features = map Inr rs \<longrightarrow> get_clean_data (Inr features) = (DataFrame rs, None))
   \<and> (Inl e \<in> set (map row_of features)
        \<longrightarrow> (\<exists>e'. get_clean_data (Inr features) = (DataFrame [], Some e')))
   \<and> (row_of f = Inr r \<longleftrightarrow>
        (\<exists>p cs. properties f = Some p \<and> geometry f = Some cs \<and> 2 \<le> length cs
           \<and> r = props.extend p \<lparr>lat = cs ! 1, lon = cs ! 0\<rparr>))"
proof (intro conjI impI)
  assume "map row_of features = map Inr rs"
  from collect_rows_ok[OF this, of "[]"]
  show "get_clean_data (Inr features) = (DataFrame rs, None)"
    by (simp add: get_clean_data_def)
next
  assume "Inl e \<in> set (map row_of features)"
  from collect_rows_error[OF this, of "[]"]
  show "\<exists>e'. get_clean_data (Inr features) = (DataFrame [], Some e')"
    by (auto simp add: get_clean_data_def)
next
  show "row_of f = Inr r \<longleftrightarrow>
        (\<exists>p cs. properties f = Some p \<and> geometry f = Some cs \<and> 2 \<le> length cs
           \<and> r = props.extend p \<lparr>lat = cs ! 1, lon = cs ! 0\<rparr>)"
    by (rule row_of_Inr_iff)
qed

theorem fetch_all_or_nothing_witness:
  "map row_of [good_feature, nan_feature] = map Inr [oak_50, oak_50\<lparr>lat := NaN\<rparr>]
   \<and> get_clean_data (Inr [good_feature, nan_feature])
       = (DataFrame [oak_50, oak_50\<lparr>lat := NaN\<rparr>], None)
   \<and> Inl TypeError \<in> set (map row_of [good_feature, no_geometry_feature])
   \<and> (\<exists>e'. get_clean_data (Inr [good_feature, no_geometry_feature]) = (DataFrame [], Some e'))
   \<and> row_of good_feature = Inr oak_50"
proof -
  have a: "map row_of [good_feature, nan_feature] = map Inr [oak_50, oak_50\<lparr>lat := NaN\<rparr>]"
    by (simp add: row_of_examples)
  have b: "Inl TypeError \<in> set (map row_of [good_feature, no_geometry_feature])"
    by (simp add: row_of_examples)
  show ?thesis
    using a b row_of_examples(1)
      fetch_all_or_nothing[where features = "[good_feature, nan_feature]"
        and rs = "[oak_50, oak_50\<lparr>lat := NaN\<rparr>]"]
      fetch_all_or_nothing[where features = "[good_feature, no_geometry_feature]"
        and e = TypeError]
    by blast
qed

text \<open>
  Claim C2 as the specification states it fails. A response of a well-formed feature followed by
  a feature without geometry gives the empty frame, so the row of the well-formed feature is not
  in the dataset; and a feature whose latitude is not finite is not dropped.
\<close>

theorem malformed_feature_aborts_fetch:
  "row_of good_feature = Inr oak_50
   \<and> geometry no_geometry_feature = None
   \<and> get_clean_data (Inr [good_feature, no_geometry_feature]) = (DataFrame [], Some TypeError)
   \<and> oak_50 \<notin> set (rows (fst (get_clean_data (Inr [good_feature, no_geometry_feature]))))
   \<and> geometry nan_feature = Some [Fin (-122.6), NaN]
   \<and> rows (fst (get_clean_data (Inr [nan_feature]))) = [oak_50\<lparr>lat := NaN\<rparr>]"
  by (simp add: get_clean_data_def row_of_examples rows_DataFrame)
     (simp add: no_geometry_feature_def nan_feature_def)

section \<open>Properties of the Aggregator\<close>









text \<open>The scenario of the specification: the two oaks of three trees.\<close>

lemma oak_scenario:
  "col_stats (df_filtered ''Oak'' (0, 100) (0, 100) three_trees)
     = \<lparr>total_trees = 2, species_count = 1, avg_height = Fin 55, avg_diameter = Fin 22.5\<rparr>"
  by (simp add: col_stats_def len_def three_trees_oak nunique_def series_mean_def
      oak_50_def oak_60_def)

text \<open>
  Claim C6. On a frame with no rows the count is 0, the species count is 0, and both means are
  the value \<^verbatim>\<open>NaN\<close>: the mean is a value in every case, no division by zero is performed.
\<close>

theorem col_stats_empty:
  assumes "rows d = []"
  shows "col_stats d = \<lparr>total_trees = 0, species_count = 0, avg_height = NaN, avg_diameter = NaN\<rparr>"
  using assms by (simp add: col_stats_def len_def nunique_def series_mean_def)

theorem col_stats_empty_witness:
  "rows (df_filtered ''All'' (200, 300) (0, 100) three_trees) = []
   \<and> col_stats (df_filtered ''All'' (200, 300) (0, 100) three_trees)
       = \<lparr>total_trees = 0, species_count = 0, avg_height = NaN, avg_diameter = NaN\<rparr>"
  using col_stats_empty[OF three_trees_out_of_range] three_trees_out_of_range by simp

section \<open>Properties of the Visualization Selector\<close>






section \<open>Properties of the Exporter\<close>








text \<open>One tree, exported: the header line, then the line of the tree.\<close>

lemma csv_one_tree:
  "to_csv digits (DataFrame [oak_50])
     = ''COMMON,HEIGHT,DIAMETER,lat,lon'' @ [CHR 0x0A] @ ''Oak,50.0,20.0,?,?'' @ [CHR 0x0A]"
  by (simp add: to_csv_def DataFrame_def row_keys_def oak_50_def csv_line_def quote_field_def
      needs_quote_def cell_text_def csv_number_def digits_def)



section \<open>The default ranges of the sliders\<close>

text \<open>
  Claim C9 fails on the code. For the dataset of an oak (50 ft, 20 in) and a fir (80.5 ft,
  30.25 in) the sliders are bounded by, and start at, 50 to 80 and 20 to 30: \<^verbatim>\<open>int\<close> cuts the
  observed maxima 80.5 and 30.25 down. The first view, species \<^verbatim>\<open>"All"\<close> and both sliders untouched,
  holds the oak only; the fir, whose height and diameter are both present, is left out.
\<close>

theorem default_view_drops_fractional_maximum:
  "min_max_height two_trees = Inr (50, 80)
   \<and> min_max_diameter two_trees = Inr (20, 30)
   \<and> fir_fraction \<in> set (rows two_trees)
   \<and> HEIGHT fir_fraction = Fin 80.5 \<and> DIAMETER fir_fraction = Fin 30.25
   \<and> map_sum id rows (default_view two_trees) = Inr [oak_50]
   \<and> fir_fraction \<noteq> oak_50"
  by (simp add: default_view_def min_max_height_def min_max_diameter_def slider_default_def
      two_trees_def rows_DataFrame rows_df_filtered oak_50_def fir_fraction_def)

section \<open>Missing measures downstream\<close>

text \<open>
  Claim C10. Whatever the species choice and the two ranges, a row whose height or diameter is
  missing is not in the filtered frame, and every row of the filtered frame has both. The
  statistics, the map layers and the export are computed from the filtered frame alone, and they
  are the same as for the dataset with the rows of missing height or diameter taken out
  beforehand: such a row reaches no output under any criteria.
\<close>

theorem missing_value_never_downstream:
  "(HEIGHT r = NaN \<or> DIAMETER r = NaN \<longrightarrow> r \<notin> set (rows (df_filtered choice hr dr d)))
   \<and> (\<forall>r' \<in> set (rows (df_filtered choice hr dr d)). HEIGHT r' \<noteq> NaN \<and> DIAMETER r' \<noteq> NaN)
   \<and> df_filtered choice hr dr (select (\<lambda>r. HEIGHT r \<noteq> NaN \<and> DIAMETER r \<noteq> NaN) d)
       = df_filtered choice hr dr d
   \<and> col_stats (df_filtered choice hr dr (select (\<lambda>r. HEIGHT r \<noteq> NaN \<and> DIAMETER r \<noteq> NaN) d))
       = col_stats (df_filtered choice hr dr d)
   \<and> map_layers repr map_type (df_filtered choice hr dr (select (\<lambda>r. HEIGHT r \<noteq> NaN \<and> DIAMETER r \<noteq> NaN) d))
       = map_layers repr map_type (df_filtered choice hr dr d)
   \<and> csv repr (df_filtered choice hr dr (select (\<lambda>r. HEIGHT r \<noteq> NaN \<and> DIAMETER r \<noteq> NaN) d))
       = csv repr (df_filtered choice hr dr d)"
proof -
  have "\<forall>r' \<in> set (rows (df_filtered choice hr dr d)). HEIGHT r' \<noteq> NaN \<and> DIAMETER r' \<noteq> NaN"
    by (auto simp add: rows_df_filtered)
  then show ?thesis
    by (auto simp add: df_filtered_drop_missing)
qed

theorem missing_value_never_downstream_witness:
  "HEIGHT elm_no_height = NaN
   \<and> elm_no_height \<in> set (rows trees_with_gap)
   \<and> elm_no_height \<notin> set (rows (df_filtered ''All'' (-1000000, 1000000) (-1000000, 1000000) trees_with_gap))
   \<and> rows (df_filtered ''All'' (-1000000, 1000000) (-1000000, 1000000) trees_with_gap) = [oak_50, oak_60]"
proof -
  have n: "HEIGHT elm_no_height = NaN"
    by (simp add: elm_no_height_def)
  have "rows (df_filtered ''All'' (-1000000, 1000000) (-1000000, 1000000) trees_with_gap) = [oak_50, oak_60]"
    by (simp add: rows_df_filtered trees_with_gap_def rows_DataFrame oak_50_def oak_60_def elm_no_height_def)
  then show ?thesis
    using n missing_value_never_downstream[of elm_no_height "''All''" "(-1000000, 1000000)" "(-1000000, 1000000)" trees_with_gap]
    by (simp add: trees_with_gap_def rows_DataFrame)
qed

end
